theory Spec2Isabelle
  imports Main "HOL-Library.Word"
begin

section \<open>Strings\<close>

text \<open>
  Query texts are JavaScript strings. They are modelled as lists of 8-bit characters, read
  as the UTF-16 code units 0 to 255; on that range \<open>toLowerCase\<close> maps one code unit to
  one code unit. Console output is not modelled.
\<close>

text \<open>The characters that \<open>String.prototype.trim\<close> removes and that \<open>\s\<close> matches.\<close>

definition isWhiteSpace :: "char \<Rightarrow> bool" where
  "isWhiteSpace c =
     (c \<in> set [CHR 0x09, CHR 0x0A, CHR 0x0B, CHR 0x0C, CHR 0x0D, CHR 0x20, CHR 0xA0])"

text \<open>The characters that \<open>.\<close> does not match and before which \<open>$\<close> matches under the \<open>m\<close> flag.\<close>

definition isLineTerminator :: "char \<Rightarrow> bool" where
  "isLineTerminator c = (c = CHR 0x0A \<or> c = CHR 0x0D)"

definition toLowerChar :: "char \<Rightarrow> char" where
  "toLowerChar c =
     (let n = (of_char c :: nat)
      in if (65 \<le> n \<and> n \<le> 90) \<or> (192 \<le> n \<and> n \<le> 222 \<and> n \<noteq> 215)
         then char_of (n + 32) else c)"

definition toLowerCase :: "string \<Rightarrow> string" where
  "toLowerCase s = map toLowerChar s"

definition trim :: "string \<Rightarrow> string" where
  "trim s = rev (dropWhile isWhiteSpace (rev (dropWhile isWhiteSpace s)))"

definition startsWith :: "string \<Rightarrow> string \<Rightarrow> bool" where
  "startsWith s k = (take (length k) s = k)"

text \<open>\<open>s.includes(k)\<close>: \<open>k\<close> occurs in \<open>s\<close> as a contiguous substring.\<close>

fun includes_str :: "string \<Rightarrow> string \<Rightarrow> bool" where
  "includes_str [] k = (k = [])"
| "includes_str (c # cs) k = (startsWith (c # cs) k \<or> includes_str cs k)"

text \<open>
  \<open>s.split(/\s+/)\<close>: the pieces between maximal runs of white space; a string that
  begins or ends with white space has an empty first or last piece, and the empty string
  splits into one empty piece.
\<close>

lemma dropWhile_token_shorter:
  assumes "dropWhile (\<lambda>c. \<not> isWhiteSpace c) s \<noteq> []"
  shows "length (dropWhile isWhiteSpace (dropWhile (\<lambda>c. \<not> isWhiteSpace c) s)) < length s"
proof -
  let ?rest = "dropWhile (\<lambda>c. \<not> isWhiteSpace c) s"
  obtain w ws where r: "?rest = w # ws" using assms by (cases ?rest) auto
  have "isWhiteSpace w" using hd_dropWhile [OF assms] r by simp
  then have "length (dropWhile isWhiteSpace ?rest) \<le> length ws"
    using r by (simp add: length_dropWhile_le)
  moreover have "length ?rest \<le> length s" by (rule length_dropWhile_le)
  ultimately show ?thesis using r by simp
qed

function splitWhiteSpace :: "string \<Rightarrow> string list" where
  "splitWhiteSpace s =
     (let tok = takeWhile (\<lambda>c. \<not> isWhiteSpace c) s;
          rest = dropWhile (\<lambda>c. \<not> isWhiteSpace c) s
      in if rest = [] then [tok]
         else tok # splitWhiteSpace (dropWhile isWhiteSpace rest))"
  by pat_completeness auto
termination
  by (relation "measure length") (auto simp: Let_def intro: dropWhile_token_shorter)

declare splitWhiteSpace.simps [simp del]

text \<open>\<open>s.split(', ')\<close>: the pieces between the occurrences of a comma followed by a space.\<close>

fun splitAcc :: "string \<Rightarrow> string \<Rightarrow> string list" where
  "splitAcc acc (c # d # cs) =
     (if c = CHR '','' \<and> d = CHR '' '' then rev acc # splitAcc [] cs
      else splitAcc (c # acc) (d # cs))"
| "splitAcc acc [c] = [rev (c # acc)]"
| "splitAcc acc [] = [rev acc]"

definition splitCommaSpace :: "string \<Rightarrow> string list" where
  "splitCommaSpace s = splitAcc [] s"

section \<open>Numbers\<close>

text \<open>The decimal numeral of an integer, with a minus sign when it is negative.\<close>

fun digits :: "nat \<Rightarrow> string" where
  "digits n =
     (if n < 10 then [''0123456789'' ! n]
      else digits (n div 10) @ [''0123456789'' ! (n mod 10)])"

declare digits.simps [simp del]

definition decimal :: "int \<Rightarrow> string" where
  "decimal n = (if n < 0 then CHR ''-'' # digits (nat (- n)) else digits (nat n))"

text \<open>
  A JavaScript number, as far as the executor can tell numbers apart. An integer from
  \<open>-2\<^sup>5\<^sup>3\<close> to \<open>2\<^sup>5\<^sup>3 - 1\<close> is a signed word of 54 bits, read with \<open>sint\<close>; every
  such integer is a number, and \<open>String\<close> prints it as its decimal numeral. Any other
  number but \<open>NaN\<close> (one that is not an integer, one of larger magnitude, an infinity) is
  given by the two things the executor does with it: whether it is below \<open>MAX_ROWS\<close>,
  and the text that \<open>String\<close> prints for it (\<open>2.5\<close>, \<open>-1e+21\<close>, \<open>Infinity\<close>).
\<close>

datatype number = Integer "54 word" | NotANumber | OtherNumber bool string

text \<open>Whether \<open>x || d\<close> is \<open>x\<close>: zero and \<open>NaN\<close> are falsy, every other number is truthy.\<close>

definition truthy :: "number \<Rightarrow> bool" where
  "truthy x =
     (case x of Integer w \<Rightarrow> w \<noteq> 0 | NotANumber \<Rightarrow> False | OtherNumber below text \<Rightarrow> True)"

text \<open>\<open>String(x)\<close>, as a template literal prints \<open>x\<close>.\<close>

definition numberToString :: "number \<Rightarrow> string" where
  "numberToString x =
     (case x of
        Integer w \<Rightarrow> decimal (sint w)
      | NotANumber \<Rightarrow> ''NaN''
      | OtherNumber below text \<Rightarrow> text)"

text \<open>
  The integer that a difference \<open>d\<close> of two of the integers above is rounded to, as a
  double: up to \<open>2\<^sup>5\<^sup>3\<close> in magnitude every integer is a double; beyond, up to \<open>2\<^sup>5\<^sup>4\<close>,
  the even ones are, and an odd one is halfway between two doubles and goes to the multiple
  of 4.
\<close>

definition roundToDouble :: "int \<Rightarrow> int" where
  "roundToDouble d =
     (if \<bar>d\<bar> \<le> 2 ^ 53 \<or> even d then d
      else if (d + 1) mod 4 = 0 then d + 1 else d - 1)"

text \<open>
  \<open>a - b\<close> for two clock readings (\<open>Date.now()\<close> gives an integer number of
  milliseconds, of magnitude below \<open>2\<^sup>5\<^sup>3\<close>).
\<close>

definition minusTime :: "54 word \<Rightarrow> 54 word \<Rightarrow> number" where
  "minusTime a b =
     (let d = sint a - sint b
      in if - (2 ^ 53) \<le> d \<and> d < 2 ^ 53 then Integer (word_of_int d)
         else OtherNumber (d < 1000) (decimal (roundToDouble d)))"

section \<open>Read-only validation of query texts\<close>

text \<open>
  \<open>query.replace(/--.*$/gm, '')\<close>: from each \<open>--\<close>, scanning left to right, everything up
  to the end of the line is removed; the line terminator stays.
\<close>

function removeLineComments :: "string \<Rightarrow> string" where
  "removeLineComments (a # b # cs) =
     (if a = CHR ''-'' \<and> b = CHR ''-''
      then removeLineComments (dropWhile (\<lambda>c. \<not> isLineTerminator c) cs)
      else a # removeLineComments (b # cs))"
| "removeLineComments [a] = [a]"
| "removeLineComments [] = []"
  by pat_completeness auto
termination
  by (relation "measure length") (auto intro: le_less_trans [OF length_dropWhile_le])

text \<open>The text after the first \<open>*/\<close>, when there is one.\<close>

fun afterBlockEnd :: "string \<Rightarrow> string option" where
  "afterBlockEnd (a # b # cs) =
     (if a = CHR ''*'' \<and> b = CHR ''/'' then Some cs else afterBlockEnd (b # cs))"
| "afterBlockEnd [a] = None"
| "afterBlockEnd [] = None"

lemma afterBlockEnd_length: "afterBlockEnd s = Some r \<Longrightarrow> length r < length s"
  by (induction s rule: afterBlockEnd.induct) (auto split: if_splits)

text \<open>
  \<open>result.replace(/\/\*[\s\S]*?\*\//g, '')\<close>: each \<open>/*\<close> is removed together with the
  text up to the first \<open>*/\<close> after it; a \<open>/*\<close> that is never closed matches nothing and
  the scan moves on by one character.
\<close>

function removeBlockComments :: "string \<Rightarrow> string" where
  "removeBlockComments (a # b # cs) =
     (if a = CHR ''/'' \<and> b = CHR ''*''
      then (case afterBlockEnd cs of
              Some r \<Rightarrow> removeBlockComments r
            | None \<Rightarrow> a # removeBlockComments (b # cs))
      else a # removeBlockComments (b # cs))"
| "removeBlockComments [a] = [a]"
| "removeBlockComments [] = []"
  by pat_completeness auto
termination
  by (relation "measure length") (auto dest: afterBlockEnd_length)

definition removeComments :: "string \<Rightarrow> string" where
  "removeComments query = removeBlockComments (removeLineComments query)"

text \<open>
  The comments as the specification words them, for comparison with \<open>removeComments\<close>:
  single-line comments (\<open>--\<close> to the end of the line) and block comments
  (\<open>/* ... */\<close>, not nested, up to the first \<open>*/\<close>) are removed in one pass from left
  to right, so that a comment marker inside a comment opens nothing.
\<close>

function stripCommentsInOnePass :: "string \<Rightarrow> string" where
  "stripCommentsInOnePass (a # b # cs) =
     (if a = CHR ''-'' \<and> b = CHR ''-''
      then stripCommentsInOnePass (dropWhile (\<lambda>c. \<not> isLineTerminator c) cs)
      else if a = CHR ''/'' \<and> b = CHR ''*''
      then (case afterBlockEnd cs of
              Some r \<Rightarrow> stripCommentsInOnePass r
            | None \<Rightarrow> a # stripCommentsInOnePass (b # cs))
      else a # stripCommentsInOnePass (b # cs))"
| "stripCommentsInOnePass [a] = [a]"
| "stripCommentsInOnePass [] = []"
  by pat_completeness auto
termination
  by (relation "measure length")
     (auto dest: afterBlockEnd_length intro: le_less_trans [OF length_dropWhile_le])

definition forbiddenKeywords :: "string list" where
  "forbiddenKeywords =
     [''insert'', ''update'', ''delete'', ''drop'', ''create'', ''alter'',
      ''truncate'', ''merge'', ''exec'', ''execute'', ''sp_'',
      ''xp_'', ''bulk'', ''openrowset'', ''opendatasource'']"

text \<open>A thrown value: an \<open>Error\<close> object with its message, or anything else.\<close>

datatype thrown = Error string | NonError

definition forbiddenKeywordMessage :: "string \<Rightarrow> string" where
  "forbiddenKeywordMessage keyword =
     ''Query contains forbidden keyword: '' @ keyword @ ''. Only SELECT statements are allowed.''"

text \<open>
  The word that \<open>validateReadOnlyQuery\<close> compares with \<open>select\<close> and \<open>with\<close>:
  element 0 of the split of the trimmed, comment-free text (\<open>None\<close> for \<open>undefined\<close>).
\<close>

definition firstWord :: "string \<Rightarrow> string option" where
  "firstWord queryWithoutComments =
     (case splitWhiteSpace (trim queryWithoutComments) of [] \<Rightarrow> None | w # _ \<Rightarrow> Some w)"

definition validateReadOnlyQuery :: "string \<Rightarrow> thrown + unit" where
  "validateReadOnlyQuery query =
     (let normalizedQuery = toLowerCase (trim query)
      in case find (includes_str normalizedQuery) forbiddenKeywords of
           Some keyword \<Rightarrow> Inl (Error (forbiddenKeywordMessage keyword))
         | None \<Rightarrow>
             (let queryWithoutComments = removeComments normalizedQuery
              in if firstWord queryWithoutComments \<noteq> Some ''select''
                    \<and> firstWord queryWithoutComments \<noteq> Some ''with''
                 then Inl (Error ''Only SELECT statements and CTEs (WITH clause) are allowed.'')
                 else Inr ()))"

text \<open>The text that the checks read: trimmed, then lowercased.\<close>

abbreviation normalized :: "string \<Rightarrow> string" where
  "normalized query \<equiv> toLowerCase (trim query)"

section \<open>Row limit\<close>

text \<open>
  \<open>query.replace(/^(\s*select\s+)/i, `$1TOP ${maxRows} `)\<close>: when the text begins
  with white space (or none), the word \<open>select\<close> in any case and at least one
  white-space character, the limit is inserted after that white space; otherwise the text
  is returned as it is.
\<close>

definition insertTop :: "string \<Rightarrow> number \<Rightarrow> string" where
  "insertTop query limit =
     (let lead = takeWhile isWhiteSpace query;
          afterLead = dropWhile isWhiteSpace query;
          word = take 6 afterLead;
          gap = takeWhile isWhiteSpace (drop 6 afterLead);
          rest = dropWhile isWhiteSpace (drop 6 afterLead)
      in if toLowerCase word = ''select'' \<and> gap \<noteq> []
         then lead @ word @ gap @ ''TOP '' @ numberToString limit @ '' '' @ rest
         else query)"

definition addRowLimit :: "string \<Rightarrow> number \<Rightarrow> string" where
  "addRowLimit query limit =
     (let normalizedQuery = toLowerCase (trim query)
      in if includes_str normalizedQuery ''top '' \<or> includes_str normalizedQuery ''top(''
         then query
         else if startsWith normalizedQuery ''select ''
         then insertTop query limit
         else query)"

section \<open>The query executor\<close>

datatype scalar = SqlNull | SqlNumber int | SqlText string | SqlBit bool

type_synonym row = "(string \<times> scalar) list"

text \<open>
  A record set of the driver: the keys of its \<open>columns\<close> object (when it has one) and its
  rows. A result has a record set or none.
\<close>

record recordset =
  rs_columns :: "string list option"
  rs_rows :: "row list"

text \<open>
  The connection pool answers a statement text in the state \<open>'s\<close> of the database and
  its environment: it fails with a thrown value or returns a result, and gives the next state.
  The executor's state pairs the statements sent so far with that state.
\<close>

type_synonym 's ConnectionPool = "string \<Rightarrow> 's \<Rightarrow> (thrown + recordset option) \<times> 's"

type_synonym 's io = "string list \<times> 's"

definition request_query ::
  "'s ConnectionPool \<Rightarrow> string \<Rightarrow> 's io \<Rightarrow> (thrown + recordset option) \<times> 's io" where
  "request_query pool text st =
     (case pool text (snd st) of (r, s') \<Rightarrow> (r, (fst st @ [text], s')))"

definition getPool :: "'p option \<Rightarrow> thrown + 'p" where
  "getPool db =
     (case db of
        None \<Rightarrow> Inl (Error ''Database not connected. Call connect() first.'')
      | Some pool \<Rightarrow> Inr pool)"

record QueryResult =
  columns :: "string list"
  rows :: "row list"
  rowCount :: nat
  executionTime :: number

record QueryOptions =
  maxRows :: "number option"
  timeout :: "number option"

definition MAX_ROWS :: "54 word" where
  "MAX_ROWS = 1000"

text \<open>\<open>options.maxRows || this.MAX_ROWS\<close>: a missing or falsy value gives the default.\<close>

definition orDefault :: "number option \<Rightarrow> number \<Rightarrow> number" where
  "orDefault v d = (case v of None \<Rightarrow> d | Some x \<Rightarrow> if truthy x then x else d)"

text \<open>\<open>Math.min(x, this.MAX_ROWS)\<close>.\<close>

definition minMaxRows :: "number \<Rightarrow> number" where
  "minMaxRows x =
     (case x of
        Integer w \<Rightarrow> if sint w < sint MAX_ROWS then Integer w else Integer MAX_ROWS
      | NotANumber \<Rightarrow> NotANumber
      | OtherNumber below text \<Rightarrow> if below then OtherNumber below text else Integer MAX_ROWS)"

definition errorMessage :: "thrown \<Rightarrow> string" where
  "errorMessage err = (case err of Error m \<Rightarrow> m | NonError \<Rightarrow> ''Unknown error'')"

definition executionFailed :: "number \<Rightarrow> thrown \<Rightarrow> thrown" where
  "executionFailed ms err =
     Error (''Query execution failed ('' @ numberToString ms @ ''ms): ''
            @ errorMessage err)"

text \<open>\<open>now\<close> reads the wall clock (\<open>Date.now()\<close>) in a state.\<close>

definition executeQuery ::
  "('s \<Rightarrow> 54 word) \<Rightarrow> 's ConnectionPool option \<Rightarrow> string \<Rightarrow> QueryOptions \<Rightarrow> 's io
     \<Rightarrow> (thrown + QueryResult) \<times> 's io" where
  "executeQuery now db query options st =
     (case validateReadOnlyQuery query of
        Inl e \<Rightarrow> (Inl e, st)
      | Inr _ \<Rightarrow>
          (let startTime = now (snd st)
           in case getPool db of
                Inl e \<Rightarrow> (Inl e, st)
              | Inr pool \<Rightarrow>
                  (let limit = minMaxRows (orDefault (maxRows options) (Integer MAX_ROWS));
                       modifiedQuery = addRowLimit query limit
                   in case request_query pool modifiedQuery st of
                        (Inr result, st') \<Rightarrow>
                          (Inr \<lparr>columns = (case result of
                                              None \<Rightarrow> []
                                            | Some rs \<Rightarrow>
                                                (case rs_columns rs of None \<Rightarrow> [] | Some ks \<Rightarrow> ks)),
                                rows = (case result of None \<Rightarrow> [] | Some rs \<Rightarrow> rs_rows rs),
                                rowCount = (case result of
                                              None \<Rightarrow> 0
                                            | Some rs \<Rightarrow> length (rs_rows rs)),
                                executionTime = minusTime (now (snd st')) startTime\<rparr>, st')
                      | (Inl err, st') \<Rightarrow>
                          (Inl (executionFailed (minusTime (now (snd st')) startTime) err),
                           st'))))"

definition explainFailed :: "thrown \<Rightarrow> thrown" where
  "explainFailed err = Error (''Failed to get query execution plan: '' @ errorMessage err)"

definition explainQuery ::
  "'s ConnectionPool option \<Rightarrow> string \<Rightarrow> 's io \<Rightarrow> (thrown + row list) \<times> 's io" where
  "explainQuery db query st =
     (case validateReadOnlyQuery query of
        Inl e \<Rightarrow> (Inl e, st)
      | Inr _ \<Rightarrow>
          (case getPool db of
             Inl e \<Rightarrow> (Inl e, st)
           | Inr pool \<Rightarrow>
               (case request_query pool ''SET SHOWPLAN_ALL ON'' st of
                  (Inl err, st1) \<Rightarrow> (Inl (explainFailed err), st1)
                | (Inr _, st1) \<Rightarrow>
                    (case request_query pool query st1 of
                       (Inl err, st2) \<Rightarrow> (Inl (explainFailed err), st2)
                     | (Inr result, st2) \<Rightarrow>
                         (case request_query pool ''SET SHOWPLAN_ALL OFF'' st2 of
                            (Inl err, st3) \<Rightarrow> (Inl (explainFailed err), st3)
                          | (Inr _, st3) \<Rightarrow>
                              (Inr (case result of None \<Rightarrow> [] | Some rs \<Rightarrow> rs_rows rs),
                               st3))))))"

record QueryStatistics =
  logicalReads :: number
  physicalReads :: number
  cpuTime :: number
  elapsedTime :: number

definition statisticsFailed :: "thrown \<Rightarrow> thrown" where
  "statisticsFailed err = Error (''Failed to get query statistics: '' @ errorMessage err)"

definition getQueryStatistics ::
  "('s \<Rightarrow> 54 word) \<Rightarrow> 's ConnectionPool option \<Rightarrow> string \<Rightarrow> 's io
     \<Rightarrow> (thrown + QueryStatistics) \<times> 's io" where
  "getQueryStatistics now db query st =
     (case validateReadOnlyQuery query of
        Inl e \<Rightarrow> (Inl e, st)
      | Inr _ \<Rightarrow>
          (case getPool db of
             Inl e \<Rightarrow> (Inl e, st)
           | Inr pool \<Rightarrow>
               (case request_query pool ''SET STATISTICS IO ON'' st of
                  (Inl err, st1) \<Rightarrow> (Inl (statisticsFailed err), st1)
                | (Inr _, st1) \<Rightarrow>
                    (case request_query pool ''SET STATISTICS TIME ON'' st1 of
                       (Inl err, st2) \<Rightarrow> (Inl (statisticsFailed err), st2)
                     | (Inr _, st2) \<Rightarrow>
                         (let startTime = now (snd st2)
                          in case request_query pool query st2 of
                               (Inl err, st3) \<Rightarrow> (Inl (statisticsFailed err), st3)
                             | (Inr _, st3) \<Rightarrow>
                                 (let elapsed = minusTime (now (snd st3)) startTime
                                  in case request_query pool ''SET STATISTICS IO OFF'' st3 of
                                       (Inl err, st4) \<Rightarrow> (Inl (statisticsFailed err), st4)
                                     | (Inr _, st4) \<Rightarrow>
                                         (case request_query pool ''SET STATISTICS TIME OFF'' st4 of
                                            (Inl err, st5) \<Rightarrow> (Inl (statisticsFailed err), st5)
                                          | (Inr _, st5) \<Rightarrow>
                                              (Inr \<lparr>logicalReads = Integer 0,
                                                    physicalReads = Integer 0,
                                                    cpuTime = Integer 0,
                                                    elapsedTime = elapsed\<rparr>,
                                               st5))))))))"

section \<open>Schema discovery\<close>

record TableInfo =
  table_schema :: string
  table_name :: string
  table_type :: string
  table_rowCount :: "int option"

record ColumnInfo =
  col_name :: string
  col_dataType :: string
  col_maxLength :: "int option"
  col_isNullable :: bool
  col_isPrimaryKey :: bool
  col_isForeignKey :: bool
  col_defaultValue :: "string option"
  col_description :: "string option"

record IndexInfo =
  idx_name :: string
  idx_columns :: "string list"
  idx_isUnique :: bool
  idx_isPrimaryKey :: bool

record ForeignKeyInfo =
  fk_name :: string
  fk_column :: string
  fk_referencedTable :: string
  fk_referencedColumn :: string
  fk_referencedSchema :: string

record TableSchema =
  schema_table :: TableInfo
  schema_columns :: "ColumnInfo list"
  schema_indexes :: "IndexInfo list"
  schema_foreignKeys :: "ForeignKeyInfo list"

text \<open>
  The rows of the five catalog statements, with the fields that their SELECT lists name.
  The three flags of a column row are the integers 0 and 1 of a CASE expression; the two
  flags of an index row are bits, which the driver returns as booleans.
\<close>

record TableRow =
  row_schema :: string
  row_name :: string
  row_type :: string

record ColumnRow =
  row_colName :: string
  row_dataType :: string
  row_maxLength :: "int option"
  row_isNullable :: int
  row_colIsPrimaryKey :: int
  row_isForeignKey :: int
  row_defaultValue :: "string option"
  row_description :: "string option"

record IndexRow =
  row_indexName :: string
  row_columns :: string
  row_isUnique :: bool
  row_idxIsPrimaryKey :: bool

record ForeignKeyRow =
  row_constraintName :: string
  row_columnName :: string
  row_referencedSchema :: string
  row_referencedTable :: string
  row_referencedColumn :: string

text \<open>
  The pool as schema discovery uses it: one operation for each of its five parameterised
  statements, taking the schema and table names (a row of the count statement is its
  \<open>row_count\<close>). The state pairs the statements sent so far with the state of the
  database.
\<close>

record 's CatalogPool =
  tableQuery :: "string \<Rightarrow> string \<Rightarrow> 's \<Rightarrow> (thrown + TableRow list) \<times> 's"
  countQuery :: "string \<Rightarrow> string \<Rightarrow> 's \<Rightarrow> (thrown + int list) \<times> 's"
  columnsQuery :: "string \<Rightarrow> string \<Rightarrow> 's \<Rightarrow> (thrown + ColumnRow list) \<times> 's"
  indexesQuery :: "string \<Rightarrow> string \<Rightarrow> 's \<Rightarrow> (thrown + IndexRow list) \<times> 's"
  foreignKeysQuery :: "string \<Rightarrow> string \<Rightarrow> 's \<Rightarrow> (thrown + ForeignKeyRow list) \<times> 's"

datatype statement =
  TableStatement string string
  | CountStatement string string
  | ColumnsStatement string string
  | IndexesStatement string string
  | ForeignKeysStatement string string

type_synonym 's cio = "statement list \<times> 's"

definition send :: "statement \<Rightarrow> ('s \<Rightarrow> 'r \<times> 's) \<Rightarrow> 's cio \<Rightarrow> 'r \<times> 's cio" where
  "send stmt answer st = (case answer (snd st) of (r, s') \<Rightarrow> (r, (fst st @ [stmt], s')))"

text \<open>\<open>Boolean(n)\<close> for a number \<open>n\<close>.\<close>

definition Boolean :: "int \<Rightarrow> bool" where
  "Boolean n = (n \<noteq> 0)"

definition columnInfo :: "ColumnRow \<Rightarrow> ColumnInfo" where
  "columnInfo row =
     \<lparr>col_name = row_colName row,
      col_dataType = row_dataType row,
      col_maxLength = row_maxLength row,
      col_isNullable = Boolean (row_isNullable row),
      col_isPrimaryKey = Boolean (row_colIsPrimaryKey row),
      col_isForeignKey = Boolean (row_isForeignKey row),
      col_defaultValue = row_defaultValue row,
      col_description = row_description row\<rparr>"

definition getTableColumns ::
  "'s CatalogPool option \<Rightarrow> string \<Rightarrow> string \<Rightarrow> 's cio \<Rightarrow> (thrown + ColumnInfo list) \<times> 's cio" where
  "getTableColumns db schemaName tableName st =
     (case getPool db of
        Inl e \<Rightarrow> (Inl e, st)
      | Inr pool \<Rightarrow>
          (case send (ColumnsStatement schemaName tableName)
                  (columnsQuery pool schemaName tableName) st of
             (Inl e, st') \<Rightarrow> (Inl e, st')
           | (Inr recordset, st') \<Rightarrow> (Inr (map columnInfo recordset), st')))"

definition indexInfo :: "IndexRow \<Rightarrow> IndexInfo" where
  "indexInfo row =
     \<lparr>idx_name = row_indexName row,
      idx_columns = splitCommaSpace (row_columns row),
      idx_isUnique = row_isUnique row,
      idx_isPrimaryKey = row_idxIsPrimaryKey row\<rparr>"

definition getTableIndexes ::
  "'s CatalogPool option \<Rightarrow> string \<Rightarrow> string \<Rightarrow> 's cio \<Rightarrow> (thrown + IndexInfo list) \<times> 's cio" where
  "getTableIndexes db schemaName tableName st =
     (case getPool db of
        Inl e \<Rightarrow> (Inl e, st)
      | Inr pool \<Rightarrow>
          (case send (IndexesStatement schemaName tableName)
                  (indexesQuery pool schemaName tableName) st of
             (Inl e, st') \<Rightarrow> (Inl e, st')
           | (Inr recordset, st') \<Rightarrow> (Inr (map indexInfo recordset), st')))"

definition foreignKeyInfo :: "ForeignKeyRow \<Rightarrow> ForeignKeyInfo" where
  "foreignKeyInfo row =
     \<lparr>fk_name = row_constraintName row,
      fk_column = row_columnName row,
      fk_referencedTable = row_referencedTable row,
      fk_referencedColumn = row_referencedColumn row,
      fk_referencedSchema = row_referencedSchema row\<rparr>"

definition getTableForeignKeys ::
  "'s CatalogPool option \<Rightarrow> string \<Rightarrow> string \<Rightarrow> 's cio
     \<Rightarrow> (thrown + ForeignKeyInfo list) \<times> 's cio" where
  "getTableForeignKeys db schemaName tableName st =
     (case getPool db of
        Inl e \<Rightarrow> (Inl e, st)
      | Inr pool \<Rightarrow>
          (case send (ForeignKeysStatement schemaName tableName)
                  (foreignKeysQuery pool schemaName tableName) st of
             (Inl e, st') \<Rightarrow> (Inl e, st')
           | (Inr recordset, st') \<Rightarrow> (Inr (map foreignKeyInfo recordset), st')))"

text \<open>
  The row count of a base table: the count statement is sent; when it fails, or its
  record set has no first row, the table is left as it is.
\<close>

definition withRowCount ::
  "'s CatalogPool \<Rightarrow> string \<Rightarrow> string \<Rightarrow> TableInfo \<Rightarrow> 's cio \<Rightarrow> TableInfo \<times> 's cio" where
  "withRowCount pool schemaName tableName table st =
     (if table_type table = ''USER_TABLE''
      then (case send (CountStatement schemaName tableName)
                   (countQuery pool schemaName tableName) st of
              (Inl error, st') \<Rightarrow> (table, st')
            | (Inr [], st') \<Rightarrow> (table, st')
            | (Inr (first # _), st') \<Rightarrow> (table\<lparr>table_rowCount := Some first\<rparr>, st'))
      else (table, st))"

definition notFound :: "string \<Rightarrow> string \<Rightarrow> thrown" where
  "notFound schemaName tableName =
     Error (''Table '' @ schemaName @ ''.'' @ tableName @ '' not found'')"

definition getTableSchema ::
  "'s CatalogPool option \<Rightarrow> string \<Rightarrow> string \<Rightarrow> 's cio \<Rightarrow> (thrown + TableSchema) \<times> 's cio" where
  "getTableSchema db schemaName tableName st =
     (case getPool db of
        Inl e \<Rightarrow> (Inl e, st)
      | Inr pool \<Rightarrow>
          (case send (TableStatement schemaName tableName)
                  (tableQuery pool schemaName tableName) st of
             (Inl e, st1) \<Rightarrow> (Inl e, st1)
           | (Inr [], st1) \<Rightarrow> (Inl (notFound schemaName tableName), st1)
           | (Inr (first # _), st1) \<Rightarrow>
               (case withRowCount pool schemaName tableName
                       \<lparr>table_schema = row_schema first, table_name = row_name first,
                        table_type = row_type first, table_rowCount = None\<rparr> st1 of
                  (table, st2) \<Rightarrow>
                    (case getTableColumns db schemaName tableName st2 of
                       (Inl e, st3) \<Rightarrow> (Inl e, st3)
                     | (Inr tableColumns, st3) \<Rightarrow>
                         (case getTableIndexes db schemaName tableName st3 of
                            (Inl e, st4) \<Rightarrow> (Inl e, st4)
                          | (Inr tableIndexes, st4) \<Rightarrow>
                              (case getTableForeignKeys db schemaName tableName st4 of
                                 (Inl e, st5) \<Rightarrow> (Inl e, st5)
                               | (Inr tableForeignKeys, st5) \<Rightarrow>
                                   (Inr \<lparr>schema_table = table, schema_columns = tableColumns,
                                         schema_indexes = tableIndexes,
                                         schema_foreignKeys = tableForeignKeys\<rparr>, st5)))))))"

text \<open>
  The invariant that the specification states for a table schema: every column of an
  index, and the column of every foreign key, is the name of a column of the schema.
\<close>

definition schemaConsistent :: "TableSchema \<Rightarrow> bool" where
  "schemaConsistent ts =
     (list_all (\<lambda>ix. list_all (\<lambda>c. c \<in> set (map col_name (schema_columns ts)))
                        (idx_columns ix)) (schema_indexes ts) \<and>
      list_all (\<lambda>fk. fk_column fk \<in> set (map col_name (schema_columns ts)))
        (schema_foreignKeys ts))"

section \<open>Example catalogs\<close>

text \<open>
  The table \<open>dbo.people\<close>, of the given type, with the columns \<open>id\<close> and \<open>name\<close>,
  an index on \<open>name\<close> and no foreign key; the count statement is refused.
\<close>

definition exampleTableRow :: "string \<Rightarrow> TableRow" where
  "exampleTableRow kind = \<lparr>row_schema = ''dbo'', row_name = ''people'', row_type = kind\<rparr>"

definition exampleColumnRows :: "ColumnRow list" where
  "exampleColumnRows =
     [\<lparr>row_colName = ''id'', row_dataType = ''int'', row_maxLength = None,
       row_isNullable = 0, row_colIsPrimaryKey = 1, row_isForeignKey = 0,
       row_defaultValue = None, row_description = None\<rparr>,
      \<lparr>row_colName = ''name'', row_dataType = ''nvarchar'',
       row_maxLength = Some 200, row_isNullable = 1, row_colIsPrimaryKey = 0,
       row_isForeignKey = 0, row_defaultValue = None, row_description = None\<rparr>]"

definition exampleIndexRows :: "IndexRow list" where
  "exampleIndexRows =
     [\<lparr>row_indexName = ''IX_people_name'', row_columns = ''name'',
       row_isUnique = False, row_idxIsPrimaryKey = False\<rparr>]"

definition exampleCatalog :: "string \<Rightarrow> unit CatalogPool" where
  "exampleCatalog kind =
     \<lparr>tableQuery = (\<lambda>schemaName tableName s.
        (if schemaName = ''dbo'' \<and> tableName = ''people''
         then Inr [exampleTableRow kind] else Inr [], s)),
      countQuery = (\<lambda>schemaName tableName s.
        (Inl (Error ''The SELECT permission was denied''), s)),
      columnsQuery = (\<lambda>schemaName tableName s. (Inr exampleColumnRows, s)),
      indexesQuery = (\<lambda>schemaName tableName s. (Inr exampleIndexRows, s)),
      foreignKeysQuery = (\<lambda>schemaName tableName s. (Inr [], s))\<rparr>"

text \<open>
  The same table as a view, where the foreign-key statement returns a constraint on a
  column \<open>owner_id\<close> that the column statement has not returned.
\<close>

definition danglingForeignKeyRows :: "ForeignKeyRow list" where
  "danglingForeignKeyRows =
     [\<lparr>row_constraintName = ''FK_people_owner'', row_columnName = ''owner_id'',
       row_referencedSchema = ''dbo'', row_referencedTable = ''owners'',
       row_referencedColumn = ''id''\<rparr>]"

definition danglingCatalog :: "unit CatalogPool" where
  "danglingCatalog =
     (exampleCatalog ''VIEW'')
       \<lparr>foreignKeysQuery := (\<lambda>schemaName tableName s. (Inr danglingForeignKeyRows, s))\<rparr>"

section \<open>Facts about the string operations\<close>

lemma startsWith_iff: "startsWith s k \<longleftrightarrow> (\<exists>r. s = k @ r)"
  unfolding startsWith_def
  by (metis append_eq_conv_conj append_take_drop_id)

lemma includes_str_iff: "includes_str s k \<longleftrightarrow> (\<exists>p r. s = p @ k @ r)"
proof (induction s)
  case Nil
  then show ?case by auto
next
  case (Cons c cs)
  show ?case
  proof
    assume "includes_str (c # cs) k"
    then consider "startsWith (c # cs) k" | "includes_str cs k" by auto
    then show "\<exists>p r. c # cs = p @ k @ r"
    proof cases
      case 1
      then obtain r where "c # cs = k @ r" by (auto simp: startsWith_iff)
      then have "c # cs = [] @ k @ r" by simp
      then show ?thesis by blast
    next
      case 2
      then obtain p r where "cs = p @ k @ r" using Cons.IH by auto
      then have "c # cs = (c # p) @ k @ r" by simp
      then show ?thesis by blast
    qed
  next
    assume "\<exists>p r. c # cs = p @ k @ r"
    then obtain p r where d: "c # cs = p @ k @ r" by auto
    show "includes_str (c # cs) k"
    proof (cases p)
      case Nil
      then have "startsWith (c # cs) k" using d by (simp add: startsWith_iff)
      then show ?thesis by simp
    next
      case (Cons a p')
      then have "cs = p' @ k @ r" using d by simp
      then show ?thesis using Cons.IH by auto
    qed
  qed
qed

lemma isWhiteSpace_toLowerChar: "isWhiteSpace (toLowerChar c) = isWhiteSpace c"
  by (auto simp: isWhiteSpace_def toLowerChar_def Let_def
           dest!: arg_cong [where f = "of_char :: char \<Rightarrow> nat"])

lemma dropWhile_decomp: "\<exists>a. s = a @ dropWhile P s \<and> list_all P a"
  by (metis takeWhile_dropWhile_id list_all_iff set_takeWhileD)

lemma trim_decomp: "\<exists>a b. s = a @ trim s @ b \<and> list_all isWhiteSpace a \<and> list_all isWhiteSpace b"
proof -
  obtain a where a: "s = a @ dropWhile isWhiteSpace s" "list_all isWhiteSpace a"
    using dropWhile_decomp by blast
  let ?t = "dropWhile isWhiteSpace s"
  obtain b where b: "rev ?t = b @ dropWhile isWhiteSpace (rev ?t)" "list_all isWhiteSpace b"
    using dropWhile_decomp by blast
  have "?t = trim s @ rev b"
    using b(1) unfolding trim_def by (metis rev_append rev_rev_ident)
  then have "s = a @ trim s @ rev b" using a(1) by simp
  moreover have "list_all isWhiteSpace (rev b)" using b(2) by (simp add: list_all_iff)
  ultimately show ?thesis using a(2) by blast
qed

lemma trim_hd: "trim s \<noteq> [] \<Longrightarrow> \<not> isWhiteSpace (hd (trim s))"
proof -
  assume ne: "trim s \<noteq> []"
  let ?t = "dropWhile isWhiteSpace s"
  obtain b where b: "?t = trim s @ b"
    unfolding trim_def by (metis rev_append rev_rev_ident takeWhile_dropWhile_id)
  have "?t \<noteq> []" using b ne by simp
  then have "\<not> isWhiteSpace (hd ?t)" by (rule hd_dropWhile)
  then show ?thesis using b ne by simp
qed

lemma infix_drop_ws_prefix:
  assumes "list_all isWhiteSpace a" and "a @ t = p @ m @ r" and "m \<noteq> []" and "\<not> list_ex isWhiteSpace m"
  shows "\<exists>p'. t = p' @ m @ r"
  using assms
proof (induction a arbitrary: p)
  case Nil
  then show ?case by auto
next
  case (Cons w a)
  show ?case
  proof (cases p)
    case Nil
    then have "hd m = w" using Cons.prems by (cases m) auto
    then show ?thesis using Cons.prems by (cases m) (auto)
  next
    case (Cons x p')
    then have "a @ t = p' @ m @ r" using Cons.prems by simp
    then show ?thesis using Cons.IH Cons.prems by auto
  qed
qed


lemma infix_of_trim:
  assumes "query = pre @ mid @ post" and "mid \<noteq> []" and "\<not> list_ex isWhiteSpace mid"
  shows "\<exists>p r. trim query = p @ mid @ r"
proof -
  obtain a b where ab: "query = a @ trim query @ b"
    "list_all isWhiteSpace a" "list_all isWhiteSpace b"
    using trim_decomp by blast
  have "a @ (trim query @ b) = pre @ mid @ post" using ab(1) assms(1) by simp
  then obtain p where p: "trim query @ b = p @ mid @ post"
    using infix_drop_ws_prefix [OF ab(2) _ assms(2,3)] by blast
  then have "rev b @ rev (trim query) = rev post @ rev mid @ rev p"
    by (metis append.assoc rev_append)
  moreover have "list_all isWhiteSpace (rev b)" using ab(3) by (simp add: list_all_iff)
  moreover have "rev mid \<noteq> []" using assms(2) by simp
  moreover have "\<not> list_ex isWhiteSpace (rev mid)" using assms(3) by (simp add: list_ex_iff)
  ultimately obtain r where "rev (trim query) = r @ rev mid @ rev p"
    using infix_drop_ws_prefix by blast
  then have "trim query = p @ mid @ rev r"
    by (metis append.assoc rev_append rev_rev_ident)
  then show ?thesis by blast
qed

lemma toLowerCase_no_space:
  "\<not> list_ex isWhiteSpace (toLowerCase mid) \<Longrightarrow> \<not> list_ex isWhiteSpace mid"
  by (simp add: toLowerCase_def list_ex_iff isWhiteSpace_toLowerChar)

lemma includes_normalized:
  assumes "query = pre @ mid @ post" and "toLowerCase mid = k"
    and "k \<noteq> []" and "\<not> list_ex isWhiteSpace k"
  shows "includes_str (toLowerCase (trim query)) k"
proof -
  have "mid \<noteq> []" using assms(2,3) by (auto simp: toLowerCase_def)
  moreover have "\<not> list_ex isWhiteSpace mid" using assms(2,4) toLowerCase_no_space by blast
  ultimately obtain p r where "trim query = p @ mid @ r"
    using infix_of_trim [OF assms(1)] by blast
  then have "toLowerCase (trim query) = toLowerCase p @ k @ toLowerCase r"
    using assms(2) by (simp add: toLowerCase_def)
  then show ?thesis unfolding includes_str_iff by blast
qed

lemma normalized_includes_decomp:
  assumes "includes_str (toLowerCase (trim query)) k"
  shows "\<exists>a m b. query = a @ m @ b \<and> toLowerCase m = k"
proof -
  obtain p r where "map toLowerChar (trim query) = p @ k @ r"
    using assms unfolding includes_str_iff toLowerCase_def by blast
  then obtain p' m r' where m: "trim query = p' @ m @ r'" "map toLowerChar m = k"
    by (metis map_eq_append_conv)
  obtain a b where "query = a @ trim query @ b" using trim_decomp by blast
  then have "query = (a @ p') @ m @ (r' @ b)" using m(1) by simp
  then show ?thesis using m(2) unfolding toLowerCase_def by blast
qed

lemma forbiddenKeywords_plain:
  "k \<in> set forbiddenKeywords \<Longrightarrow> k \<noteq> [] \<and> \<not> list_ex isWhiteSpace k"
  by (auto simp: forbiddenKeywords_def isWhiteSpace_def)

section \<open>Properties of the read-only validation\<close>

lemma rejected_no_dispatch:
  assumes "validateReadOnlyQuery query = Inl e"
  shows "executeQuery now db query options st = (Inl e, st)"
    and "explainQuery db query st = (Inl e, st)"
    and "getQueryStatistics now db query st = (Inl e, st)"
  using assms by (simp_all add: executeQuery_def explainQuery_def getQueryStatistics_def)

text \<open>
  C2: a query text that contains a keyword of the deny list anywhere, in any case, is rejected;
  the error message names a keyword of the deny list that the text contains, and
  \<open>executeQuery\<close>, \<open>explainQuery\<close> and \<open>getQueryStatistics\<close> return that
  error with the state unchanged, so no statement is sent to the database.
\<close>

theorem forbidden_keyword_rejected:
  assumes "keyword \<in> set forbiddenKeywords"
    and "query = pre @ mid @ post"
    and "toLowerCase mid = keyword"
  shows "\<exists>k a m b.
           k \<in> set forbiddenKeywords \<and> query = a @ m @ b \<and> toLowerCase m = k \<and>
           validateReadOnlyQuery query = Inl (Error (forbiddenKeywordMessage k)) \<and>
           executeQuery now db query options st = (Inl (Error (forbiddenKeywordMessage k)), st) \<and>
           explainQuery db query st = (Inl (Error (forbiddenKeywordMessage k)), st) \<and>
           getQueryStatistics now db query st = (Inl (Error (forbiddenKeywordMessage k)), st)"
proof -
  let ?nq = "toLowerCase (trim query)"
  have "includes_str ?nq keyword"
    using includes_normalized [OF assms(2,3)] forbiddenKeywords_plain [OF assms(1)] by blast
  then have "find (includes_str ?nq) forbiddenKeywords \<noteq> None"
    using assms(1) by (auto simp: find_None_iff)
  then obtain k where k: "find (includes_str ?nq) forbiddenKeywords = Some k" by auto
  then have kin: "k \<in> set forbiddenKeywords" and kinc: "includes_str ?nq k"
    by (auto simp: find_Some_iff)
  obtain a m b where d: "query = a @ m @ b" "toLowerCase m = k"
    using normalized_includes_decomp [OF kinc] by blast
  have v: "validateReadOnlyQuery query = Inl (Error (forbiddenKeywordMessage k))"
    using k by (simp add: validateReadOnlyQuery_def)
  show ?thesis
    using kin d v rejected_no_dispatch [OF v] by blast
qed

theorem forbidden_keyword_rejected_witness:
  "''drop'' \<in> set forbiddenKeywords \<and> toLowerCase ''DROP'' = ''drop'' \<and>
   (\<exists>k a m b.
      k \<in> set forbiddenKeywords \<and> ''SELECT * FROM t; DROP TABLE t'' = a @ m @ b \<and>
      toLowerCase m = k \<and>
      validateReadOnlyQuery ''SELECT * FROM t; DROP TABLE t'' =
        Inl (Error (forbiddenKeywordMessage k)) \<and>
      executeQuery (\<lambda>s. s) (Some (\<lambda>text s. (Inr None, s + 1)))
          ''SELECT * FROM t; DROP TABLE t'' \<lparr>maxRows = Some (Integer 10), timeout = None\<rparr>
          ([], 0) =
        (Inl (Error (forbiddenKeywordMessage k)), ([], 0)) \<and>
      explainQuery (Some (\<lambda>text s. (Inr None, s + 1))) ''SELECT * FROM t; DROP TABLE t'' ([], 0) =
        (Inl (Error (forbiddenKeywordMessage k)), ([], 0::54 word)) \<and>
      getQueryStatistics (\<lambda>s. s) (Some (\<lambda>text s. (Inr None, s + 1)))
          ''SELECT * FROM t; DROP TABLE t'' ([], 0) =
        (Inl (Error (forbiddenKeywordMessage k)), ([], 0))) \<and>
   validateReadOnlyQuery ''SELECT * FROM t; DROP TABLE t'' =
     Inl (Error ''Query contains forbidden keyword: drop. Only SELECT statements are allowed.'')"
proof -
  have 0: "validateReadOnlyQuery ''SELECT * FROM t; DROP TABLE t'' =
     Inl (Error ''Query contains forbidden keyword: drop. Only SELECT statements are allowed.'')"
    by code_simp
  have 1: "''drop'' \<in> set forbiddenKeywords" by (simp add: forbiddenKeywords_def)
  have 2: "''SELECT * FROM t; DROP TABLE t'' = ''SELECT * FROM t; '' @ ''DROP'' @ '' TABLE t''"
    by simp
  have 3: "toLowerCase ''DROP'' = ''drop''" by code_simp
  show ?thesis
    using 0 1 3 forbidden_keyword_rejected [OF 1 2 3] by blast
qed

lemma takeWhile_token_ws_suffix:
  "list_all isWhiteSpace b \<Longrightarrow>
     takeWhile (\<lambda>c. \<not> isWhiteSpace c) (t @ b) = takeWhile (\<lambda>c. \<not> isWhiteSpace c) t"
proof (induction t)
  case Nil
  then show ?case by (cases b) auto
next
  case (Cons a t)
  then show ?case by simp
qed

lemma dropWhile_eq_trim_ws:
  "\<exists>b. dropWhile isWhiteSpace s = trim s @ b \<and> list_all isWhiteSpace b"
proof -
  let ?d = "dropWhile isWhiteSpace s"
  obtain b where b: "rev ?d = b @ dropWhile isWhiteSpace (rev ?d)" "list_all isWhiteSpace b"
    using dropWhile_decomp by blast
  have "?d = trim s @ rev b"
    using b(1) unfolding trim_def by (metis rev_append rev_rev_ident)
  moreover have "list_all isWhiteSpace (rev b)" using b(2) by (simp add: list_all_iff)
  ultimately show ?thesis by blast
qed

lemma firstWord_eq:
  "firstWord s = Some (takeWhile (\<lambda>c. \<not> isWhiteSpace c) (dropWhile isWhiteSpace s))"
proof -
  obtain b where b: "dropWhile isWhiteSpace s = trim s @ b" "list_all isWhiteSpace b"
    using dropWhile_eq_trim_ws by blast
  have "firstWord s = Some (takeWhile (\<lambda>c. \<not> isWhiteSpace c) (trim s))"
    unfolding firstWord_def by (subst splitWhiteSpace.simps) (simp add: Let_def)
  then show ?thesis using takeWhile_token_ws_suffix [OF b(2)] b(1) by simp
qed

text \<open>
  C3: the query below is a block comment, the word \<open>SHUTDOWN\<close>, a second block comment
  and \<open>select 1\<close>. With its comments removed as they are written, its first word is
  \<open>shutdown\<close>. \<open>removeComments\<close> first removes the text from the \<open>--\<close> inside the first
  comment to the end of the line, and with it the end of that comment, the word
  \<open>SHUTDOWN\<close> and the start of the second comment; the first word left is
  \<open>select\<close>, so the query is accepted and sent as it is.
\<close>

theorem leading_token_check_bypassed:
  "takeWhile (\<lambda>c. \<not> isWhiteSpace c)
     (dropWhile isWhiteSpace
        (stripCommentsInOnePass
           (normalized (''/*--*/ SHUTDOWN /*'' @ [CHR 0x0A] @ ''*/ select 1'')))) = ''shutdown'' \<and>
   removeComments (normalized (''/*--*/ SHUTDOWN /*'' @ [CHR 0x0A] @ ''*/ select 1'')) =
     '' select 1'' \<and>
   validateReadOnlyQuery (''/*--*/ SHUTDOWN /*'' @ [CHR 0x0A] @ ''*/ select 1'') = Inr () \<and>
   fst (snd (executeQuery (\<lambda>s. s) (Some (\<lambda>text s. (Inr None, s + 1)))
               (''/*--*/ SHUTDOWN /*'' @ [CHR 0x0A] @ ''*/ select 1'')
               \<lparr>maxRows = Some (Integer 50), timeout = None\<rparr> ([], 0))) =
     [''/*--*/ SHUTDOWN /*'' @ [CHR 0x0A] @ ''*/ select 1'']"
  by code_simp

text \<open>
  A SELECT that only reads a column named \<open>inserted_at\<close> is rejected: the name contains
  the keyword \<open>insert\<close>. It is the only keyword of the deny list in the text, and the
  first word of the text is \<open>select\<close>.
\<close>

theorem inserted_at_counterexample:
  "validateReadOnlyQuery ''SELECT inserted_at FROM t'' =
     Inl (Error ''Query contains forbidden keyword: insert. Only SELECT statements are allowed.'') \<and>
   filter (includes_str (normalized ''SELECT inserted_at FROM t'')) forbiddenKeywords = [''insert''] \<and>
   firstWord (removeComments (normalized ''SELECT inserted_at FROM t'')) = Some ''select''"
  by code_simp

text \<open>
  C6 (as amended): the deny list is a substring filter, so every query that contains the
  identifier \<open>inserted_at\<close>, in any case, is rejected with the keyword \<open>insert\<close>
  named in the error.
\<close>

theorem inserted_at_rejected:
  assumes "query = pre @ mid @ post" and "toLowerCase mid = ''inserted_at''"
  shows "validateReadOnlyQuery query = Inl (Error (forbiddenKeywordMessage ''insert''))"
proof -
  have "query = pre @ take 6 mid @ (drop 6 mid @ post)" using assms(1) by simp
  moreover have "toLowerCase (take 6 mid) = ''insert''"
    using assms(2) unfolding toLowerCase_def by (simp flip: take_map)
  ultimately have "includes_str (toLowerCase (trim query)) ''insert''"
    by (rule includes_normalized) (simp_all add: isWhiteSpace_def)
  then show ?thesis
    by (simp add: validateReadOnlyQuery_def forbiddenKeywords_def)
qed

theorem inserted_at_rejected_witness:
  "toLowerCase ''Inserted_At'' = ''inserted_at'' \<and>
   validateReadOnlyQuery ''select Inserted_At from t'' =
     Inl (Error (forbiddenKeywordMessage ''insert''))"
proof -
  have 1: "''select Inserted_At from t'' = ''select '' @ ''Inserted_At'' @ '' from t''" by simp
  have 2: "toLowerCase ''Inserted_At'' = ''inserted_at''" by code_simp
  show ?thesis using 2 inserted_at_rejected [OF 1 2] by simp
qed

section \<open>Properties of the row limit\<close>

lemma removeLineComments_keep:
  "a \<noteq> CHR ''-'' \<Longrightarrow> removeLineComments (a # r) = a # removeLineComments r"
  by (cases r) auto

lemma removeBlockComments_keep:
  "a \<noteq> CHR ''/'' \<Longrightarrow> removeBlockComments (a # r) = a # removeBlockComments r"
  by (cases r) auto

lemma select_firstWord:
  assumes "startsWith nq ''select ''"
  shows "firstWord (removeComments nq) = Some ''select''"
proof -
  obtain r where "nq = ''select '' @ r" using assms by (auto simp: startsWith_iff)
  then have "removeComments nq = ''select '' @ removeBlockComments (removeLineComments r)"
    by (simp add: removeComments_def removeLineComments_keep removeBlockComments_keep)
  then show ?thesis by (simp add: firstWord_eq isWhiteSpace_def)
qed

lemma executeQuery_sent:
  assumes "validateReadOnlyQuery query = Inr ()" and "db = Some pool"
  shows "fst (snd (executeQuery now db query options st)) =
           fst st @ [addRowLimit query
                       (minMaxRows (orDefault (maxRows options) (Integer MAX_ROWS)))]"
  using assms
  by (simp add: executeQuery_def getPool_def request_query_def Let_def
           split: prod.splits sum.splits)

lemma insertTop_shape:
  assumes "toLowerCase (take 6 (dropWhile isWhiteSpace query)) = ''select''"
    and "takeWhile isWhiteSpace (drop 6 (dropWhile isWhiteSpace query)) \<noteq> []"
  shows "\<exists>lead word gap rest.
           query = lead @ word @ gap @ rest \<and> list_all isWhiteSpace lead \<and>
           toLowerCase word = ''select'' \<and> gap \<noteq> [] \<and> list_all isWhiteSpace gap \<and>
           (rest = [] \<or> \<not> isWhiteSpace (hd rest)) \<and>
           insertTop query limit =
             lead @ word @ gap @ ''TOP '' @ numberToString limit @ '' '' @ rest"
proof -
  let ?lead = "takeWhile isWhiteSpace query"
  let ?after = "dropWhile isWhiteSpace query"
  let ?word = "take 6 ?after"
  let ?gap = "takeWhile isWhiteSpace (drop 6 ?after)"
  let ?rest = "dropWhile isWhiteSpace (drop 6 ?after)"
  show ?thesis
  proof (intro exI conjI)
    show "query = ?lead @ ?word @ ?gap @ ?rest" by simp
    show "list_all isWhiteSpace ?lead" by (auto simp: list_all_iff dest: set_takeWhileD)
    show "toLowerCase ?word = ''select''" by (rule assms(1))
    show "?gap \<noteq> []" by (rule assms(2))
    show "list_all isWhiteSpace ?gap" by (auto simp: list_all_iff dest: set_takeWhileD)
    show "?rest = [] \<or> \<not> isWhiteSpace (hd ?rest)" using hd_dropWhile by blast
    show "insertTop query limit =
        ?lead @ ?word @ ?gap @ ''TOP '' @ numberToString limit @ '' '' @ ?rest"
      using assms by (simp add: insertTop_def Let_def)
  qed
qed

lemma select_prefix_matches:
  assumes "startsWith (normalized query) ''select ''"
  shows "toLowerCase (take 6 (dropWhile isWhiteSpace query)) = ''select'' \<and>
         takeWhile isWhiteSpace (drop 6 (dropWhile isWhiteSpace query)) \<noteq> []"
proof -
  obtain r where r: "map toLowerChar (trim query) = ''select '' @ r"
    using assms by (auto simp: startsWith_iff toLowerCase_def)
  obtain b where b: "dropWhile isWhiteSpace query = trim query @ b"
    using dropWhile_eq_trim_ws by blast
  have "map toLowerChar (trim query) = ''select'' @ ('' '' @ r)" using r by simp
  then have "\<exists>us vs. trim query = us @ vs \<and> ''select'' = map toLowerChar us \<and>
                 '' '' @ r = map toLowerChar vs"
    by (rule iffD1 [OF map_eq_append_conv])
  then obtain w u where u: "trim query = w @ u" "map toLowerChar w = ''select''"
    "map toLowerChar u = '' '' @ r"
    by metis
  have "\<exists>us vs. u = us @ vs \<and> '' '' = map toLowerChar us \<and> r = map toLowerChar vs"
    using u(3) by (rule iffD1 [OF map_eq_append_conv])
  then obtain g t where g: "u = g @ t" "map toLowerChar g = '' ''"
    by metis
  have t: "trim query = w @ g @ t" "map toLowerChar w = ''select''"
    "map toLowerChar g = '' ''"
    using u g by simp_all
  have "length (map toLowerChar w) = length ''select''" using t(2) by (rule arg_cong)
  then have lw: "length w = 6" by simp
  obtain c where c: "g = [c]" "toLowerChar c = CHR '' ''" using t(3) by auto
  have "isWhiteSpace (toLowerChar c)" using c(2) by (simp add: isWhiteSpace_def)
  then have wc: "isWhiteSpace c" by (simp add: isWhiteSpace_toLowerChar)
  have d: "dropWhile isWhiteSpace query = w @ c # t @ b" using b t(1) c(1) by simp
  have "take 6 (dropWhile isWhiteSpace query) = w" using d lw by simp
  moreover have "drop 6 (dropWhile isWhiteSpace query) = c # t @ b" using d lw by simp
  ultimately show ?thesis using t(2) wc by (simp add: toLowerCase_def)
qed


lemma with_not_select:
  assumes "startsWith nq ''with'' \<or> firstWord (removeComments nq) = Some ''with''"
  shows "\<not> startsWith nq ''select ''"
proof
  assume s: "startsWith nq ''select ''"
  then have "firstWord (removeComments nq) = Some ''select''" by (rule select_firstWord)
  moreover have "\<not> startsWith nq ''with''" using s by (auto simp: startsWith_iff)
  ultimately show False using assms by simp
qed

text \<open>
  The query \<open>SELECT a FROM laptop\<close> followed by a space is allowed and contains
  \<open>top \<close>, in its last word and the space after it. The checks read the trimmed text,
  which does not contain it, so the statement sent has a row limit inserted. And with
  \<open>maxRows\<close> zero the limit inserted is 1000.
\<close>

theorem trailing_top_rewritten:
  "validateReadOnlyQuery ''SELECT a FROM laptop '' = Inr () \<and>
   includes_str (toLowerCase ''SELECT a FROM laptop '') ''top '' \<and>
   fst (snd (executeQuery (\<lambda>s. s) (Some (\<lambda>text s. (Inr None, s + 1)))
               ''SELECT a FROM laptop '' \<lparr>maxRows = Some (Integer 50), timeout = None\<rparr>
               ([], 0))) =
     [''SELECT TOP 50 a FROM laptop ''] \<and>
   fst (snd (executeQuery (\<lambda>s. s) (Some (\<lambda>text s. (Inr None, s + 1)))
               ''SELECT col FROM t'' \<lparr>maxRows = Some (Integer 0), timeout = None\<rparr>
               ([], 0))) =
     [''SELECT TOP 1000 col FROM t'']"
  by code_simp

lemma row_limit_text:
  assumes "maxRows options = Some (Integer w) \<and> 0 < sint w \<and>
             k = (if 1000 < sint w then 1000 else sint w) \<or>
           (maxRows options = None \<or> maxRows options = Some (Integer 0) \<or>
            maxRows options = Some NotANumber \<or>
            maxRows options = Some (OtherNumber False text)) \<and> k = 1000"
  shows "numberToString (minMaxRows (orDefault (maxRows options) (Integer MAX_ROWS))) =
           decimal k"
proof -
  have m: "sint MAX_ROWS = 1000" by (simp add: MAX_ROWS_def)
  from assms show ?thesis
  proof
    assume a: "maxRows options = Some (Integer w) \<and> 0 < sint w \<and>
                 k = (if 1000 < sint w then 1000 else sint w)"
    then have "w \<noteq> 0" by auto
    then have "orDefault (maxRows options) (Integer MAX_ROWS) = Integer w"
      using a by (simp add: orDefault_def truthy_def)
    then show ?thesis
      using a m by (auto simp: minMaxRows_def numberToString_def)
  next
    assume a: "(maxRows options = None \<or> maxRows options = Some (Integer 0) \<or>
                maxRows options = Some NotANumber \<or>
                maxRows options = Some (OtherNumber False text)) \<and> k = 1000"
    then have "minMaxRows (orDefault (maxRows options) (Integer MAX_ROWS)) = Integer MAX_ROWS"
      by (auto simp: orDefault_def truthy_def minMaxRows_def)
    then show ?thesis
      using a m by (simp add: numberToString_def)
  qed
qed

text \<open>
  C4 (as amended): for an allowed query and a connected pool; \<open>k\<close> is \<open>maxRows\<close> when
  that is a positive integer up to 1000, and 1000 when \<open>maxRows\<close> is a number that is
  not below 1000, zero, \<open>NaN\<close> or missing. When the trimmed, lowercased text
  contains neither \<open>top \<close> nor \<open>top(\<close> and begins with \<open>select \<close>, the statement sent
  is the query with \<open>TOP k \<close> inserted after the first \<open>select\<close> word and the white
  space that follows it; all other characters are kept as they are. When the trimmed,
  lowercased text contains \<open>top \<close> or \<open>top(\<close>, or begins with \<open>with\<close>, the statement
  sent is the query itself.
\<close>

theorem row_limit_rewrite:
  assumes "validateReadOnlyQuery query = Inr ()" and "db = Some pool"
    and "maxRows options = Some (Integer w) \<and> 0 < sint w \<and>
           k = (if 1000 < sint w then 1000 else sint w) \<or>
         (maxRows options = None \<or> maxRows options = Some (Integer 0) \<or>
          maxRows options = Some NotANumber \<or>
          maxRows options = Some (OtherNumber False text)) \<and> k = 1000"
  shows "(\<not> includes_str (normalized query) ''top '' \<and>
          \<not> includes_str (normalized query) ''top('' \<and>
          startsWith (normalized query) ''select '' \<longrightarrow>
            (\<exists>lead word gap rest.
               query = lead @ word @ gap @ rest \<and> list_all isWhiteSpace lead \<and>
               toLowerCase word = ''select'' \<and> gap \<noteq> [] \<and> list_all isWhiteSpace gap \<and>
               (rest = [] \<or> \<not> isWhiteSpace (hd rest)) \<and>
               fst (snd (executeQuery now db query options st)) =
                 fst st @ [lead @ word @ gap @ ''TOP '' @ decimal k @ '' '' @ rest])) \<and>
         (includes_str (normalized query) ''top '' \<or>
          includes_str (normalized query) ''top('' \<or>
          startsWith (normalized query) ''with'' \<or>
          firstWord (removeComments (normalized query)) = Some ''with'' \<longrightarrow>
            fst (snd (executeQuery now db query options st)) = fst st @ [query])"
proof -
  let ?limit = "minMaxRows (orDefault (maxRows options) (Integer MAX_ROWS))"
  have limit: "numberToString ?limit = decimal k"
    using assms(3) by (rule row_limit_text)
  have sent: "fst (snd (executeQuery now db query options st)) =
      fst st @ [addRowLimit query ?limit]"
    using assms(1,2) by (rule executeQuery_sent)
  show ?thesis
  proof (intro conjI impI)
    assume "\<not> includes_str (normalized query) ''top '' \<and>
            \<not> includes_str (normalized query) ''top('' \<and>
            startsWith (normalized query) ''select ''"
    then have h: "\<not> includes_str (normalized query) ''top ''"
      "\<not> includes_str (normalized query) ''top(''"
      "startsWith (normalized query) ''select ''"
      by simp_all
    have a: "addRowLimit query ?limit = insertTop query ?limit"
      using h by (simp add: addRowLimit_def Let_def)
    have m: "toLowerCase (take 6 (dropWhile isWhiteSpace query)) = ''select''"
      "takeWhile isWhiteSpace (drop 6 (dropWhile isWhiteSpace query)) \<noteq> []"
      using select_prefix_matches [OF h(3)] by simp_all
    obtain lead word gap rest where d:
      "query = lead @ word @ gap @ rest" "list_all isWhiteSpace lead"
      "toLowerCase word = ''select''" "gap \<noteq> []" "list_all isWhiteSpace gap"
      "rest = [] \<or> \<not> isWhiteSpace (hd rest)"
      and i: "insertTop query ?limit =
         lead @ word @ gap @ ''TOP '' @ numberToString ?limit @ '' '' @ rest"
      using insertTop_shape [OF m, of ?limit] by blast
    have s: "fst (snd (executeQuery now db query options st)) =
        fst st @ [lead @ word @ gap @ ''TOP '' @ decimal k @ '' '' @ rest]"
      using sent a i limit by simp
    show "\<exists>lead word gap rest.
            query = lead @ word @ gap @ rest \<and> list_all isWhiteSpace lead \<and>
            toLowerCase word = ''select'' \<and> gap \<noteq> [] \<and> list_all isWhiteSpace gap \<and>
            (rest = [] \<or> \<not> isWhiteSpace (hd rest)) \<and>
            fst (snd (executeQuery now db query options st)) =
              fst st @ [lead @ word @ gap @ ''TOP '' @ decimal k @ '' '' @ rest]"
      using d s by blast
  next
    assume h: "includes_str (normalized query) ''top '' \<or>
               includes_str (normalized query) ''top('' \<or>
               startsWith (normalized query) ''with'' \<or>
               firstWord (removeComments (normalized query)) = Some ''with''"
    have "addRowLimit query ?limit = query"
    proof (cases "includes_str (normalized query) ''top '' \<or>
                  includes_str (normalized query) ''top(''")
      case True
      then show ?thesis by (simp add: addRowLimit_def Let_def)
    next
      case False
      then have "\<not> startsWith (normalized query) ''select ''"
        using h with_not_select [of "normalized query"] by blast
      then show ?thesis by (simp add: addRowLimit_def Let_def)
    qed
    then show "fst (snd (executeQuery now db query options st)) = fst st @ [query]"
      using sent by simp
  qed
qed

theorem row_limit_rewrite_witness:
  "validateReadOnlyQuery ''SELECT col FROM t'' = Inr () \<and>
   \<not> includes_str (normalized ''SELECT col FROM t'') ''top '' \<and>
   \<not> includes_str (normalized ''SELECT col FROM t'') ''top('' \<and>
   startsWith (normalized ''SELECT col FROM t'') ''select '' \<and>
   (\<exists>lead word gap rest.
      ''SELECT col FROM t'' = lead @ word @ gap @ rest \<and> list_all isWhiteSpace lead \<and>
      toLowerCase word = ''select'' \<and> gap \<noteq> [] \<and> list_all isWhiteSpace gap \<and>
      (rest = [] \<or> \<not> isWhiteSpace (hd rest)) \<and>
      fst (snd (executeQuery (\<lambda>s. s) (Some (\<lambda>text s. (Inr None, s + 1))) ''SELECT col FROM t''
                  \<lparr>maxRows = Some (Integer 50), timeout = None\<rparr> ([], 0))) =
        [] @ [lead @ word @ gap @ ''TOP '' @ decimal 50 @ '' '' @ rest]) \<and>
   (\<exists>lead word gap rest.
      ''SELECT col FROM t'' = lead @ word @ gap @ rest \<and> list_all isWhiteSpace lead \<and>
      toLowerCase word = ''select'' \<and> gap \<noteq> [] \<and> list_all isWhiteSpace gap \<and>
      (rest = [] \<or> \<not> isWhiteSpace (hd rest)) \<and>
      fst (snd (executeQuery (\<lambda>s. s) (Some (\<lambda>text s. (Inr None, s + 1))) ''SELECT col FROM t''
                  \<lparr>maxRows = None, timeout = None\<rparr> ([], 0))) =
        [] @ [lead @ word @ gap @ ''TOP '' @ decimal 1000 @ '' '' @ rest]) \<and>
   fst (snd (executeQuery (\<lambda>s. s) (Some (\<lambda>text s. (Inr None, s + 1))) ''SELECT col FROM t''
               \<lparr>maxRows = Some (Integer 50), timeout = None\<rparr> ([], 0))) =
     [''SELECT TOP 50 col FROM t''] \<and>
   fst (snd (executeQuery (\<lambda>s. s) (Some (\<lambda>text s. (Inr None, s + 1))) ''SELECT col FROM t''
               \<lparr>maxRows = Some (Integer 5000), timeout = None\<rparr> ([], 0))) =
     [''SELECT TOP 1000 col FROM t''] \<and>
   validateReadOnlyQuery ''SELECT TOP 5 col FROM t'' = Inr () \<and>
   includes_str (normalized ''SELECT TOP 5 col FROM t'') ''top '' \<and>
   fst (snd (executeQuery (\<lambda>s. s) (Some (\<lambda>text s. (Inr None, s + 1)))
               ''SELECT TOP 5 col FROM t'' \<lparr>maxRows = Some (Integer 50), timeout = None\<rparr>
               ([], 0))) =
     [''SELECT TOP 5 col FROM t'']"
proof -
  let ?pool = "\<lambda>(text :: string) (s :: 54 word). (Inr None :: thrown + recordset option, s + 1)"
  let ?opts = "\<lparr>maxRows = Some (Integer 50), timeout = None\<rparr>"
  let ?none = "\<lparr>maxRows = None, timeout = None\<rparr>"
  have v1: "validateReadOnlyQuery ''SELECT col FROM t'' = Inr ()" by code_simp
  have c1: "\<not> includes_str (normalized ''SELECT col FROM t'') ''top '' \<and>
            \<not> includes_str (normalized ''SELECT col FROM t'') ''top('' \<and>
            startsWith (normalized ''SELECT col FROM t'') ''select ''"
    by code_simp
  have m: "maxRows ?opts = Some (Integer 50) \<and> 0 < sint (50 :: 54 word) \<and>
             (50 :: int) = (if 1000 < sint (50 :: 54 word) then 1000 else sint (50 :: 54 word)) \<or>
           (maxRows ?opts = None \<or> maxRows ?opts = Some (Integer 0) \<or>
            maxRows ?opts = Some NotANumber \<or>
            maxRows ?opts = Some (OtherNumber False [])) \<and> (50 :: int) = 1000"
    by simp
  have m0: "maxRows ?none = Some (Integer 0) \<and> 0 < sint (0 :: 54 word) \<and>
             (1000 :: int) = (if 1000 < sint (0 :: 54 word) then 1000 else sint (0 :: 54 word)) \<or>
           (maxRows ?none = None \<or> maxRows ?none = Some (Integer 0) \<or>
            maxRows ?none = Some NotANumber \<or>
            maxRows ?none = Some (OtherNumber False [])) \<and> (1000 :: int) = 1000"
    by simp
  have e1: "\<exists>lead word gap rest.
      ''SELECT col FROM t'' = lead @ word @ gap @ rest \<and> list_all isWhiteSpace lead \<and>
      toLowerCase word = ''select'' \<and> gap \<noteq> [] \<and> list_all isWhiteSpace gap \<and>
      (rest = [] \<or> \<not> isWhiteSpace (hd rest)) \<and>
      fst (snd (executeQuery (\<lambda>s. s) (Some ?pool) ''SELECT col FROM t'' ?opts ([], 0))) =
        [] @ [lead @ word @ gap @ ''TOP '' @ decimal 50 @ '' '' @ rest]"
    using row_limit_rewrite [OF v1 refl m, of "\<lambda>s. s" ?pool "([], 0)", THEN conjunct1] c1
    by simp
  have e0: "\<exists>lead word gap rest.
      ''SELECT col FROM t'' = lead @ word @ gap @ rest \<and> list_all isWhiteSpace lead \<and>
      toLowerCase word = ''select'' \<and> gap \<noteq> [] \<and> list_all isWhiteSpace gap \<and>
      (rest = [] \<or> \<not> isWhiteSpace (hd rest)) \<and>
      fst (snd (executeQuery (\<lambda>s. s) (Some ?pool) ''SELECT col FROM t'' ?none ([], 0))) =
        [] @ [lead @ word @ gap @ ''TOP '' @ decimal 1000 @ '' '' @ rest]"
    using row_limit_rewrite [OF v1 refl m0, of "\<lambda>s. s" ?pool "([], 0)", THEN conjunct1] c1
    by simp
  have x1: "fst (snd (executeQuery (\<lambda>s. s) (Some ?pool) ''SELECT col FROM t''
               ?opts ([], 0))) = [''SELECT TOP 50 col FROM t'']"
    by code_simp
  have x2: "fst (snd (executeQuery (\<lambda>s. s) (Some ?pool) ''SELECT col FROM t''
               \<lparr>maxRows = Some (Integer 5000), timeout = None\<rparr> ([], 0))) =
     [''SELECT TOP 1000 col FROM t'']"
    by code_simp
  have v2: "validateReadOnlyQuery ''SELECT TOP 5 col FROM t'' = Inr ()" by code_simp
  have c2: "includes_str (normalized ''SELECT TOP 5 col FROM t'') ''top ''" by code_simp
  have e2: "fst (snd (executeQuery (\<lambda>s. s) (Some ?pool)
               ''SELECT TOP 5 col FROM t'' ?opts ([], 0))) = [''SELECT TOP 5 col FROM t'']"
    using row_limit_rewrite [OF v2 refl m, of "\<lambda>s. s" ?pool "([], 0)", THEN conjunct2] c2
    by simp
  show ?thesis
    using v1 c1 e1 e0 x1 x2 v2 c2 e2 by (intro conjI) simp_all
qed

section \<open>Properties of the executor\<close>

text \<open>
  A statement that fails while the wall clock is set back by 7 milliseconds: the time in
  the error message is negative.
\<close>

theorem execution_time_negative:
  "executeQuery (\<lambda>s. s) (Some (\<lambda>text s. (Inl (Error ''Connection lost''), s - 7)))
       ''SELECT col FROM t'' \<lparr>maxRows = Some (Integer 50), timeout = None\<rparr> ([], 100) =
     (Inl (Error ''Query execution failed (-7ms): Connection lost''),
      ([''SELECT TOP 50 col FROM t''], 93))"
  by code_simp

text \<open>
  C9 (as amended): for an allowed query on a connected pool. When the statement fails, the
  error message of \<open>executeQuery\<close> holds the elapsed time: the reading of the wall clock
  after the failure minus its reading at the start. When the statement succeeds,
  \<open>executionTime\<close> is that same difference.
\<close>

theorem execution_time_reported:
  assumes "validateReadOnlyQuery query = Inr ()" and "db = Some pool"
    and "request_query pool
           (addRowLimit query (minMaxRows (orDefault (maxRows options) (Integer MAX_ROWS)))) st =
         (outcome, st')"
  shows "(\<forall>err. outcome = Inl err \<longrightarrow>
            executeQuery now db query options st =
              (Inl (Error (''Query execution failed (''
                           @ numberToString (minusTime (now (snd st')) (now (snd st)))
                           @ ''ms): '' @ errorMessage err)), st')) \<and>
         (\<forall>result. outcome = Inr result \<longrightarrow>
            (\<exists>qr. executeQuery now db query options st = (Inr qr, st') \<and>
                  executionTime qr = minusTime (now (snd st')) (now (snd st))))"
  using assms
  by (simp add: executeQuery_def getPool_def executionFailed_def Let_def)

theorem execution_time_reported_witness:
  "validateReadOnlyQuery ''SELECT col FROM t'' = Inr () \<and>
   request_query (\<lambda>text s. (Inl (Error ''Connection lost''), s + 7))
     (addRowLimit ''SELECT col FROM t''
        (minMaxRows (orDefault (maxRows \<lparr>maxRows = Some (Integer 50), timeout = None\<rparr>)
                       (Integer MAX_ROWS))))
     ([], 100 :: 54 word) =
     (Inl (Error ''Connection lost''), ([''SELECT TOP 50 col FROM t''], 107)) \<and>
   executeQuery (\<lambda>s. s) (Some (\<lambda>text s. (Inl (Error ''Connection lost''), s + 7)))
       ''SELECT col FROM t'' \<lparr>maxRows = Some (Integer 50), timeout = None\<rparr> ([], 100) =
     (Inl (Error ''Query execution failed (7ms): Connection lost''),
      ([''SELECT TOP 50 col FROM t''], 107)) \<and>
   (\<exists>qr. executeQuery (\<lambda>s. s) (Some (\<lambda>text s. (Inr None, s + 7)))
            ''SELECT col FROM t'' \<lparr>maxRows = Some (Integer 50), timeout = None\<rparr> ([], 100) =
          (Inr qr, ([''SELECT TOP 50 col FROM t''], 107)) \<and>
        executionTime qr = Integer 7)"
proof -
  let ?pool = "\<lambda>(text :: string) (s :: 54 word).
                 (Inl (Error ''Connection lost'') :: thrown + recordset option, s + 7)"
  let ?opts = "\<lparr>maxRows = Some (Integer 50), timeout = None\<rparr>"
  have v: "validateReadOnlyQuery ''SELECT col FROM t'' = Inr ()" by code_simp
  have r: "request_query ?pool
     (addRowLimit ''SELECT col FROM t''
        (minMaxRows (orDefault (maxRows ?opts) (Integer MAX_ROWS))))
     ([], 100) =
     (Inl (Error ''Connection lost''), ([''SELECT TOP 50 col FROM t''], 107))"
    by code_simp
  have n: "numberToString (minusTime 107 100) = ''7''" by code_simp
  have m: "errorMessage (Error ''Connection lost'') = ''Connection lost''" by code_simp
  have f: "executeQuery (\<lambda>s. s) (Some ?pool) ''SELECT col FROM t'' ?opts ([], 100) =
     (Inl (Error ''Query execution failed (7ms): Connection lost''),
      ([''SELECT TOP 50 col FROM t''], 107))"
    using n m execution_time_reported [OF v refl r, of "\<lambda>s. s"] by simp
  let ?ok = "\<lambda>(text :: string) (s :: 54 word). (Inr None :: thrown + recordset option, s + 7)"
  have r': "request_query ?ok
     (addRowLimit ''SELECT col FROM t''
        (minMaxRows (orDefault (maxRows ?opts) (Integer MAX_ROWS))))
     ([], 100) =
     (Inr None, ([''SELECT TOP 50 col FROM t''], 107))"
    by code_simp
  have d: "minusTime 107 100 = Integer 7" by code_simp
  have s: "\<exists>qr. executeQuery (\<lambda>s. s) (Some ?ok) ''SELECT col FROM t'' ?opts ([], 100) =
          (Inr qr, ([''SELECT TOP 50 col FROM t''], 107)) \<and>
        executionTime qr = Integer 7"
    using d execution_time_reported [OF v refl r', of "\<lambda>s. s"] by simp
  show ?thesis
    using v r f s by (intro conjI) simp_all
qed

text \<open>
  C10: whenever \<open>getQueryStatistics\<close> succeeds, \<open>logicalReads\<close>,
  \<open>physicalReads\<close> and \<open>cpuTime\<close> are 0, and \<open>elapsedTime\<close> is the clock
  after the query minus the clock before it.
\<close>

theorem statistics_counters_zero:
  assumes "getQueryStatistics now db query st = (Inr stats, st')"
  shows "logicalReads stats = Integer 0 \<and> physicalReads stats = Integer 0 \<and>
         cpuTime stats = Integer 0 \<and>
         (\<exists>pool. db = Some pool \<and>
            (let st1 = snd (request_query pool ''SET STATISTICS IO ON'' st);
                 st2 = snd (request_query pool ''SET STATISTICS TIME ON'' st1);
                 st3 = snd (request_query pool query st2)
             in elapsedTime stats = minusTime (now (snd st3)) (now (snd st2))))"
  using assms
  by (auto simp: getQueryStatistics_def getPool_def Let_def
           split: sum.splits option.splits prod.splits)

theorem statistics_counters_zero_witness:
  "getQueryStatistics (\<lambda>s. s) (Some (\<lambda>text s. (Inr None, s + 3))) ''SELECT col FROM t'' ([], 0) =
     (Inr \<lparr>logicalReads = Integer 0, physicalReads = Integer 0, cpuTime = Integer 0,
           elapsedTime = Integer 3\<rparr>,
      ([''SET STATISTICS IO ON'', ''SET STATISTICS TIME ON'', ''SELECT col FROM t'',
        ''SET STATISTICS IO OFF'', ''SET STATISTICS TIME OFF''], 15)) \<and>
   logicalReads \<lparr>logicalReads = Integer 0, physicalReads = Integer 0, cpuTime = Integer 0,
                 elapsedTime = Integer 3\<rparr> = Integer 0 \<and>
   physicalReads \<lparr>logicalReads = Integer 0, physicalReads = Integer 0, cpuTime = Integer 0,
                  elapsedTime = Integer 3\<rparr> = Integer 0 \<and>
   cpuTime \<lparr>logicalReads = Integer 0, physicalReads = Integer 0, cpuTime = Integer 0,
            elapsedTime = Integer 3\<rparr> = Integer 0"
proof -
  have g: "getQueryStatistics (\<lambda>s. s) (Some (\<lambda>text s. (Inr None, s + 3)))
             ''SELECT col FROM t'' ([], 0) =
     (Inr \<lparr>logicalReads = Integer 0, physicalReads = Integer 0, cpuTime = Integer 0,
           elapsedTime = Integer 3\<rparr>,
      ([''SET STATISTICS IO ON'', ''SET STATISTICS TIME ON'', ''SELECT col FROM t'',
        ''SET STATISTICS IO OFF'', ''SET STATISTICS TIME OFF''], 15))"
    by code_simp
  show ?thesis
    using g statistics_counters_zero [OF g] by blast
qed

text \<open>
  C5: on a database that accepts the SET statements and refuses the query,
  \<open>explainQuery\<close> sends \<open>SET SHOWPLAN_ALL ON\<close> and the query and returns the
  error without sending \<open>SET SHOWPLAN_ALL OFF\<close>; \<open>getQueryStatistics\<close> likewise
  sends the two ON statements and the query and neither OFF statement.
\<close>

theorem toggle_left_on_when_query_fails:
  "explainQuery
     (Some (\<lambda>text s. if take 4 text = ''SET '' then (Inr None, s)
                      else (Inl (Error ''Invalid object name''), s)))
     ''SELECT a FROM missing'' ([], ()) =
     (Inl (Error ''Failed to get query execution plan: Invalid object name''),
      ([''SET SHOWPLAN_ALL ON'', ''SELECT a FROM missing''], ())) \<and>
   getQueryStatistics (\<lambda>s. 0)
     (Some (\<lambda>text s. if take 4 text = ''SET '' then (Inr None, s)
                      else (Inl (Error ''Invalid object name''), s)))
     ''SELECT a FROM missing'' ([], ()) =
     (Inl (Error ''Failed to get query statistics: Invalid object name''),
      ([''SET STATISTICS IO ON'', ''SET STATISTICS TIME ON'', ''SELECT a FROM missing''], ()))"
  by code_simp

section \<open>Properties of schema discovery\<close>

text \<open>
  On a catalog whose foreign-key statement names the column \<open>owner_id\<close>, which is not
  among the columns \<open>id\<close> and \<open>name\<close> that the column statement returns,
  \<open>getTableSchema\<close> succeeds and returns a schema that breaks the invariant.
\<close>

theorem inconsistent_schema_returned:
  "(case fst (getTableSchema (Some danglingCatalog) ''dbo'' ''people'' ([], ())) of
      Inl e \<Rightarrow> False
    | Inr ts \<Rightarrow>
        map col_name (schema_columns ts) = [''id'', ''name''] \<and>
        map fk_column (schema_foreignKeys ts) = [''owner_id''] \<and>
        \<not> schemaConsistent ts)"
  by code_simp

text \<open>
  C1 (as amended): \<open>getTableSchema\<close> does not compare the index and foreign-key
  descriptors with the column list. Whenever the table is found and the column, index and
  foreign-key statements succeed, it succeeds, whatever their rows are, and the columns
  and foreign keys of the schema returned are those rows; when a foreign-key row names a
  column that no column row has, or an index of the schema returned does, that schema
  breaks the invariant and is returned all the same.
\<close>

theorem schema_rows_returned_unchecked:
  assumes "db = Some pool"
    and "tableQuery pool schemaName tableName (snd st) = (Inr (first # others), s1)"
    and "withRowCount pool schemaName tableName
           \<lparr>table_schema = row_schema first, table_name = row_name first,
            table_type = row_type first, table_rowCount = None\<rparr>
           (fst st @ [TableStatement schemaName tableName], s1) = (table, st2)"
    and "columnsQuery pool schemaName tableName (snd st2) = (Inr crows, s3)"
    and "indexesQuery pool schemaName tableName s3 = (Inr irows, s4)"
    and "foreignKeysQuery pool schemaName tableName s4 = (Inr frows, s5)"
  shows "\<exists>ts. getTableSchema db schemaName tableName st =
                (Inr ts, (fst st2 @ [ColumnsStatement schemaName tableName,
                                     IndexesStatement schemaName tableName,
                                     ForeignKeysStatement schemaName tableName], s5)) \<and>
              schema_table ts = table \<and>
              schema_columns ts = map columnInfo crows \<and>
              map idx_name (schema_indexes ts) = map row_indexName irows \<and>
              schema_foreignKeys ts = map foreignKeyInfo frows \<and>
              (list_ex (\<lambda>r. row_columnName r \<notin> set (map row_colName crows)) frows \<or>
               list_ex (\<lambda>ix. list_ex (\<lambda>c. c \<notin> set (map row_colName crows)) (idx_columns ix))
                 (schema_indexes ts) \<longrightarrow>
                 \<not> schemaConsistent ts)"
proof -
  let ?ts = "\<lparr>schema_table = table, schema_columns = map columnInfo crows,
              schema_indexes = map indexInfo irows,
              schema_foreignKeys = map foreignKeyInfo frows\<rparr>"
  have r: "getTableSchema db schemaName tableName st =
             (Inr ?ts, (fst st2 @ [ColumnsStatement schemaName tableName,
                                   IndexesStatement schemaName tableName,
                                   ForeignKeysStatement schemaName tableName], s5))"
    using assms
    by (simp add: getTableSchema_def getTableColumns_def getTableIndexes_def
          getTableForeignKeys_def getPool_def send_def)
  have n: "map col_name (schema_columns ?ts) = map row_colName crows"
    by (simp add: columnInfo_def comp_def)
  have i: "map idx_name (schema_indexes ?ts) = map row_indexName irows"
    by (simp add: indexInfo_def comp_def)
  have v: "list_ex (\<lambda>r. row_columnName r \<notin> set (map row_colName crows)) frows \<or>
           list_ex (\<lambda>ix. list_ex (\<lambda>c. c \<notin> set (map row_colName crows)) (idx_columns ix))
             (schema_indexes ?ts) \<longrightarrow> \<not> schemaConsistent ?ts"
    unfolding schemaConsistent_def n
    by (auto simp: list_all_iff list_ex_iff foreignKeyInfo_def)
  show ?thesis
    using r i v by (intro exI [of _ ?ts]) simp
qed

theorem schema_rows_returned_unchecked_witness:
  "(\<exists>ts. getTableSchema (Some danglingCatalog) ''dbo'' ''people'' ([], ()) =
           (Inr ts, ([TableStatement ''dbo'' ''people''] @
                     [ColumnsStatement ''dbo'' ''people'', IndexesStatement ''dbo'' ''people'',
                      ForeignKeysStatement ''dbo'' ''people''], ())) \<and>
         schema_columns ts = map columnInfo exampleColumnRows \<and>
         schema_foreignKeys ts = map foreignKeyInfo danglingForeignKeyRows \<and>
         \<not> schemaConsistent ts) \<and>
   list_ex (\<lambda>r. row_columnName r \<notin> set (map row_colName exampleColumnRows))
     danglingForeignKeyRows"
proof -
  let ?table = "\<lparr>table_schema = ''dbo'', table_name = ''people'', table_type = ''VIEW'',
                 table_rowCount = None\<rparr>"
  have 1: "tableQuery danglingCatalog ''dbo'' ''people'' (snd ([] :: statement list, ())) =
             (Inr (exampleTableRow ''VIEW'' # []), ())"
    by (simp add: danglingCatalog_def exampleCatalog_def)
  have 2: "withRowCount danglingCatalog ''dbo'' ''people''
             \<lparr>table_schema = row_schema (exampleTableRow ''VIEW''),
              table_name = row_name (exampleTableRow ''VIEW''),
              table_type = row_type (exampleTableRow ''VIEW''), table_rowCount = None\<rparr>
             (fst ([] :: statement list, ()) @ [TableStatement ''dbo'' ''people''], ()) =
             (?table, ([TableStatement ''dbo'' ''people''], ()))"
    by (simp add: withRowCount_def exampleTableRow_def)
  have 3: "columnsQuery danglingCatalog ''dbo'' ''people''
             (snd ([TableStatement ''dbo'' ''people''], ())) = (Inr exampleColumnRows, ())"
    by (simp add: danglingCatalog_def exampleCatalog_def)
  have 4: "indexesQuery danglingCatalog ''dbo'' ''people'' () = (Inr exampleIndexRows, ())"
    by (simp add: danglingCatalog_def exampleCatalog_def)
  have 5: "foreignKeysQuery danglingCatalog ''dbo'' ''people'' () =
             (Inr danglingForeignKeyRows, ())"
    by (simp add: danglingCatalog_def)
  have 6: "list_ex (\<lambda>r. row_columnName r \<notin> set (map row_colName exampleColumnRows))
             danglingForeignKeyRows"
    by (simp add: danglingForeignKeyRows_def exampleColumnRows_def)
  from schema_rows_returned_unchecked [OF refl 1 2 3 4 5]
  obtain ts where ts:
    "getTableSchema (Some danglingCatalog) ''dbo'' ''people'' ([], ()) =
       (Inr ts, (fst ([TableStatement ''dbo'' ''people''], ()) @
                 [ColumnsStatement ''dbo'' ''people'', IndexesStatement ''dbo'' ''people'',
                  ForeignKeysStatement ''dbo'' ''people''], ()))"
    "schema_columns ts = map columnInfo exampleColumnRows"
    "schema_foreignKeys ts = map foreignKeyInfo danglingForeignKeyRows"
    "list_ex (\<lambda>r. row_columnName r \<notin> set (map row_colName exampleColumnRows))
       danglingForeignKeyRows \<or>
     list_ex (\<lambda>ix. list_ex (\<lambda>c. c \<notin> set (map row_colName exampleColumnRows))
                     (idx_columns ix)) (schema_indexes ts) \<longrightarrow> \<not> schemaConsistent ts"
    by blast
  have "\<not> schemaConsistent ts" using ts(4) 6 by blast
  then show ?thesis using ts(1,2,3) 6 by auto
qed

text \<open>
  C7: when the lookup of the table and view returns no row, \<open>getTableSchema\<close> fails
  with the error that the table was not found, and the lookup is the only statement it
  has sent.
\<close>

theorem missing_table_not_found:
  assumes "db = Some pool"
    and "tableQuery pool schemaName tableName (snd st) = (Inr [], s1)"
  shows "getTableSchema db schemaName tableName st =
           (Inl (Error (''Table '' @ schemaName @ ''.'' @ tableName @ '' not found'')),
            (fst st @ [TableStatement schemaName tableName], s1))"
  using assms by (simp add: getTableSchema_def getPool_def send_def notFound_def)

text \<open>
  C8: when the object found is a base table and the count statement fails while the
  column, index and foreign-key statements succeed, \<open>getTableSchema\<close> succeeds with
  the whole schema and no row count; when the object is not a base table, no count
  statement is sent.
\<close>

theorem row_count_failure_swallowed:
  assumes "db = Some pool"
    and "tableQuery pool schemaName tableName (snd st) = (Inr (first # others), s1)"
  shows "(row_type first = ''USER_TABLE'' \<and>
          countQuery pool schemaName tableName s1 = (Inl err, s2) \<and>
          columnsQuery pool schemaName tableName s2 = (Inr crows, s3) \<and>
          indexesQuery pool schemaName tableName s3 = (Inr irows, s4) \<and>
          foreignKeysQuery pool schemaName tableName s4 = (Inr frows, s5) \<longrightarrow>
            getTableSchema db schemaName tableName st =
              (Inr \<lparr>schema_table =
                      \<lparr>table_schema = row_schema first, table_name = row_name first,
                       table_type = row_type first, table_rowCount = None\<rparr>,
                    schema_columns = map columnInfo crows,
                    schema_indexes = map indexInfo irows,
                    schema_foreignKeys = map foreignKeyInfo frows\<rparr>,
               (fst st @ [TableStatement schemaName tableName,
                          CountStatement schemaName tableName,
                          ColumnsStatement schemaName tableName,
                          IndexesStatement schemaName tableName,
                          ForeignKeysStatement schemaName tableName], s5))) \<and>
         (row_type first \<noteq> ''USER_TABLE'' \<longrightarrow>
            set (fst (snd (getTableSchema db schemaName tableName st)))
              \<subseteq> set (fst st) \<union> {TableStatement schemaName tableName,
                                  ColumnsStatement schemaName tableName,
                                  IndexesStatement schemaName tableName,
                                  ForeignKeysStatement schemaName tableName})"
proof (intro conjI impI)
  assume "row_type first = ''USER_TABLE'' \<and>
          countQuery pool schemaName tableName s1 = (Inl err, s2) \<and>
          columnsQuery pool schemaName tableName s2 = (Inr crows, s3) \<and>
          indexesQuery pool schemaName tableName s3 = (Inr irows, s4) \<and>
          foreignKeysQuery pool schemaName tableName s4 = (Inr frows, s5)"
  then show "getTableSchema db schemaName tableName st =
              (Inr \<lparr>schema_table =
                      \<lparr>table_schema = row_schema first, table_name = row_name first,
                       table_type = row_type first, table_rowCount = None\<rparr>,
                    schema_columns = map columnInfo crows,
                    schema_indexes = map indexInfo irows,
                    schema_foreignKeys = map foreignKeyInfo frows\<rparr>,
               (fst st @ [TableStatement schemaName tableName,
                          CountStatement schemaName tableName,
                          ColumnsStatement schemaName tableName,
                          IndexesStatement schemaName tableName,
                          ForeignKeysStatement schemaName tableName], s5))"
    using assms
    by (simp add: getTableSchema_def withRowCount_def getTableColumns_def
          getTableIndexes_def getTableForeignKeys_def getPool_def send_def)
next
  assume "row_type first \<noteq> ''USER_TABLE''"
  then show "set (fst (snd (getTableSchema db schemaName tableName st)))
              \<subseteq> set (fst st) \<union> {TableStatement schemaName tableName,
                                  ColumnsStatement schemaName tableName,
                                  IndexesStatement schemaName tableName,
                                  ForeignKeysStatement schemaName tableName}"
    using assms
    by (auto simp: getTableSchema_def withRowCount_def getTableColumns_def
          getTableIndexes_def getTableForeignKeys_def getPool_def send_def
          split: prod.splits sum.splits)
qed


theorem missing_table_not_found_witness:
  "tableQuery (exampleCatalog ''USER_TABLE'') ''dbo'' ''orders'' () = (Inr [], ()) \<and>
   getTableSchema (Some (exampleCatalog ''USER_TABLE'')) ''dbo'' ''orders'' ([], ()) =
     (Inl (Error ''Table dbo.orders not found''), ([TableStatement ''dbo'' ''orders''], ()))"
proof -
  have 1: "tableQuery (exampleCatalog ''USER_TABLE'') ''dbo'' ''orders''
             (snd ([] :: statement list, ())) = (Inr [], ())"
    by (simp add: exampleCatalog_def)
  show ?thesis
    using 1 missing_table_not_found [OF refl 1] by simp
qed

theorem row_count_failure_swallowed_witness:
  "getTableSchema (Some (exampleCatalog ''USER_TABLE'')) ''dbo'' ''people'' ([], ()) =
     (Inr \<lparr>schema_table =
             \<lparr>table_schema = ''dbo'', table_name = ''people'', table_type = ''USER_TABLE'',
              table_rowCount = None\<rparr>,
           schema_columns = map columnInfo exampleColumnRows,
           schema_indexes = map indexInfo exampleIndexRows,
           schema_foreignKeys = map foreignKeyInfo []\<rparr>,
      ([TableStatement ''dbo'' ''people'', CountStatement ''dbo'' ''people'',
        ColumnsStatement ''dbo'' ''people'', IndexesStatement ''dbo'' ''people'',
        ForeignKeysStatement ''dbo'' ''people''], ())) \<and>
   set (fst (snd (getTableSchema (Some (exampleCatalog ''VIEW'')) ''dbo'' ''people'' ([], ()))))
     \<subseteq> set [] \<union> {TableStatement ''dbo'' ''people'', ColumnsStatement ''dbo'' ''people'',
                    IndexesStatement ''dbo'' ''people'', ForeignKeysStatement ''dbo'' ''people''}"
proof -
  have t1: "tableQuery (exampleCatalog ''USER_TABLE'') ''dbo'' ''people''
              (snd ([] :: statement list, ())) = (Inr (exampleTableRow ''USER_TABLE'' # []), ())"
    by (simp add: exampleCatalog_def)
  have a1: "row_type (exampleTableRow ''USER_TABLE'') = ''USER_TABLE'' \<and>
            countQuery (exampleCatalog ''USER_TABLE'') ''dbo'' ''people'' () =
              (Inl (Error ''The SELECT permission was denied''), ()) \<and>
            columnsQuery (exampleCatalog ''USER_TABLE'') ''dbo'' ''people'' () =
              (Inr exampleColumnRows, ()) \<and>
            indexesQuery (exampleCatalog ''USER_TABLE'') ''dbo'' ''people'' () =
              (Inr exampleIndexRows, ()) \<and>
            foreignKeysQuery (exampleCatalog ''USER_TABLE'') ''dbo'' ''people'' () = (Inr [], ())"
    by (simp add: exampleCatalog_def exampleTableRow_def)
  have t2: "tableQuery (exampleCatalog ''VIEW'') ''dbo'' ''people''
              (snd ([] :: statement list, ())) = (Inr (exampleTableRow ''VIEW'' # []), ())"
    by (simp add: exampleCatalog_def)
  have a2: "row_type (exampleTableRow ''VIEW'') \<noteq> ''USER_TABLE''"
    by (simp add: exampleTableRow_def)
  have r1: "getTableSchema (Some (exampleCatalog ''USER_TABLE'')) ''dbo'' ''people'' ([], ()) =
     (Inr \<lparr>schema_table =
             \<lparr>table_schema = row_schema (exampleTableRow ''USER_TABLE''),
              table_name = row_name (exampleTableRow ''USER_TABLE''),
              table_type = row_type (exampleTableRow ''USER_TABLE''),
              table_rowCount = None\<rparr>,
           schema_columns = map columnInfo exampleColumnRows,
           schema_indexes = map indexInfo exampleIndexRows,
           schema_foreignKeys = map foreignKeyInfo []\<rparr>,
      (fst ([] :: statement list, ()) @
         [TableStatement ''dbo'' ''people'', CountStatement ''dbo'' ''people'',
          ColumnsStatement ''dbo'' ''people'', IndexesStatement ''dbo'' ''people'',
          ForeignKeysStatement ''dbo'' ''people''], ()))"
    using row_count_failure_swallowed [OF refl t1, THEN conjunct1, THEN mp, OF a1] .
  have r2: "set (fst (snd (getTableSchema (Some (exampleCatalog ''VIEW'')) ''dbo'' ''people''
                             ([], ()))))
     \<subseteq> set (fst ([] :: statement list, ())) \<union>
         {TableStatement ''dbo'' ''people'', ColumnsStatement ''dbo'' ''people'',
          IndexesStatement ''dbo'' ''people'', ForeignKeysStatement ''dbo'' ''people''}"
    using row_count_failure_swallowed [OF refl t2, THEN conjunct2, THEN mp, OF a2] .
  show ?thesis
    using r1 r2 by (simp add: exampleTableRow_def)
qed


end
